theory Spec2Isabelle
  imports Main
begin

section \<open>Values, events and the state of the plugin\<close>

text \<open>
  The development embeds \<^verbatim>\<open>lib/debug/ProfilingPlugin.js\<close>. JavaScript values are a
  datatype. An object whose identity matters (an error object, say) is a reference
  \<open>Ref a\<close>; a plain data object is \<open>Obj\<close>. A function value is either an opaque function
  of the host (\<open>HostFn\<close>) or one of the replacement callbacks that the callback-style
  wrapper allocates (\<open>ReplFn\<close>, an index into the table of such closures). A promise is
  represented by the state it eventually reaches, \<open>Pending\<close> standing for a promise that
  never settles.
\<close>

datatype ('e, 'v) promise = Fulfilled 'v | Rejected 'e | Pending

datatype jsval =
    Undefined
  | Null
  | Num int
  | Str string
  | Arr "jsval list"
  | Obj "(string \<times> jsval) list"
  | Ref nat
  | HostFn nat
  | ReplFn nat
  | TypeError
  | Promise "(jsval, jsval) promise"

text \<open>A call either throws a value (\<open>Inl\<close>) or returns one (\<open>Inr\<close>).\<close>

type_synonym 'a result = "jsval + 'a"

datatype phase = Instant | Begin | End | Complete

record event =
  ev_name :: string
  ev_id :: nat
  ev_cat :: "string list"
  ev_ph :: phase
  ev_ts :: int
  ev_dur :: "int option"
  ev_args :: jsval

text \<open>
  The variables captured by one replacement callback of the callback-style wrapper:
  \<open>name\<close>, \<open>id\<close> and the wrapper's own \<open>args\<close> array, which the callback mutates.
\<close>

record closure =
  cl_name :: string
  cl_id :: nat
  cl_args :: "jsval list"

text \<open>
  The continuation that the promise wrapper attaches with \<open>then\<close>: the captured \<open>name\<close>
  and \<open>id\<close>, the promise it waits for, and whether the job has already run.
\<close>

record reaction =
  rx_name :: string
  rx_id :: nat
  rx_source :: "(jsval, jsval) promise"
  rx_done :: bool

text \<open>
  The state that the plugin reads and writes. \<open>counter\<close> is \<open>tracer.counter\<close>;
  \<open>events\<close> is the buffer of the trace (\<open>tracer.trace\<close>, created with \<open>noStream\<close>) and
  \<open>written\<close> what \<open>flush\<close> has sent to the output stream, \<open>flushes\<close> counting the calls;
  \<open>session\<close> tells whether \<open>profiler.session\<close> is set, \<open>disconnects\<close> and \<open>destroys\<close>
  count the calls of \<open>session.disconnect()\<close> and of \<open>profiler.destroy()\<close>. \<open>clock\<close> is
  the reading of the time source with which the trace stamps an event that brings no
  \<open>ts\<close> of its own. \<open>closures\<close> and \<open>reactions\<close> hold the continuations created by the
  wrappers, and \<open>host_calls\<close> records every invocation of an opaque host function.
  The counter is a natural number: the source increments a JavaScript number, which
  is exact below \<open>2 ^ 53\<close>.
\<close>

record world =
  counter :: nat
  events :: "event list"
  written :: "event list"
  flushes :: nat
  session :: bool
  disconnects :: nat
  destroys :: nat
  clock :: int
  closures :: "closure list"
  reactions :: "reaction list"
  host_calls :: "(nat \<times> jsval list) list"

type_synonym hostfn = "jsval list \<Rightarrow> world \<Rightarrow> jsval result \<times> world"

section \<open>The trace event log\<close>

text \<open>
  Modelled from the spec: the trace (package \<^verbatim>\<open>trace-event\<close>) is not part of the source
  file. Each of \<open>instantEvent\<close>, \<open>begin\<close>, \<open>end\<close> and \<open>completeEvent\<close> appends one event
  with the given fields to the buffer; an event without \<open>ts\<close> is stamped with the
  current reading of the clock. \<open>flush\<close> writes the buffered events to the stream.
\<close>

definition push_event ::
  "phase \<Rightarrow> string \<Rightarrow> nat \<Rightarrow> string list \<Rightarrow> int option \<Rightarrow> int option \<Rightarrow> jsval \<Rightarrow> world \<Rightarrow> world" where
  "push_event p n i c t d a s =
     s\<lparr>events := events s @
         [\<lparr>ev_name = n, ev_id = i, ev_cat = c, ev_ph = p,
           ev_ts = (case t of None \<Rightarrow> clock s | Some u \<Rightarrow> u),
           ev_dur = d, ev_args = a\<rparr>]\<rparr>"

definition flush :: "world \<Rightarrow> world" where
  "flush s = s\<lparr>written := written s @ events s, flushes := flushes s + 1\<rparr>"

definition defaultCategory :: "string list" where
  "defaultCategory = [''blink.user_timing'']"

definition trace_begin :: "string \<Rightarrow> nat \<Rightarrow> world \<Rightarrow> world" where
  "trace_begin n i s = push_event Begin n i defaultCategory None None Undefined s"

definition trace_end :: "string \<Rightarrow> nat \<Rightarrow> world \<Rightarrow> world" where
  "trace_end n i s = push_event End n i defaultCategory None None Undefined s"

section \<open>createTrace\<close>

definition pageArgs :: jsval where
  "pageArgs =
     Obj [(''data'', Obj [(''sessionId'', Str ''-1''), (''page'', Str ''0xfff''),
       (''frames'', Arr [Obj [(''frame'', Str ''0xfff''), (''url'', Str ''webpack''),
                              (''name'', Str '''')]])])]"

definition browserArgs :: jsval where
  "browserArgs = Obj [(''data'', Obj [(''sessionId'', Str ''-1'')])]"

definition timelineCategory :: "string list" where
  "timelineCategory = [''disabled-by-default-devtools.timeline'']"

text \<open>
  \<open>createTrace\<close> starts its local counter at 0, emits the two bootstrap events with
  \<open>++counter\<close> and returns the tracer, whose \<open>counter\<close> field holds the local's value.
  The argument is the reading of the clock at that moment.
\<close>

definition createTrace :: "int \<Rightarrow> world" where
  "createTrace now =
     (let s0 = \<lparr>counter = 0, events = [], written = [], flushes = 0, session = False,
                disconnects = 0, destroys = 0, clock = now, closures = [],
                reactions = [], host_calls = []\<rparr>;
          c1 = counter s0 + 1;
          s1 = push_event Instant ''TracingStartedInPage'' c1 timelineCategory None None
                 pageArgs (s0\<lparr>counter := c1\<rparr>);
          c2 = counter s1 + 1;
          s2 = push_event Instant ''TracingStartedInBrowser'' c2 timelineCategory None None
                 browserArgs (s1\<lparr>counter := c2\<rparr>)
      in s2)"

section \<open>makeNewProfiledTapFn\<close>

text \<open>
  All three wrappers open with the same two statements, \<open>const id = ++tracer.counter\<close>
  and \<open>tracer.trace.begin({name, id, cat})\<close>. \<open>alloc_begin\<close> returns the id and the
  state after them.
\<close>

definition alloc_begin :: "string \<Rightarrow> world \<Rightarrow> nat \<times> world" where
  "alloc_begin n s =
     (let i = counter s + 1 in (i, trace_begin n i (s\<lparr>counter := i\<rparr>)))"

text \<open>The wrapper of the case \<open>"sync"\<close>, with its \<open>try\<close>/\<open>catch\<close>.\<close>

definition profiled_sync :: "string \<Rightarrow> hostfn \<Rightarrow> hostfn" where
  "profiled_sync n fn args s =
     (case alloc_begin n s of (i, s1) \<Rightarrow>
        (case fn args s1 of
           (Inl error, s2) \<Rightarrow> (Inl error, trace_end n i s2)
         | (Inr r, s2) \<Rightarrow> (Inr r, trace_end n i s2)))"

text \<open>
  The case \<open>"promise"\<close>. \<open>js_then_end p n i\<close> is the call
  \<open>p.then(r => { tracer.trace.end({name, id, cat}); return r; })\<close>: on a promise it
  registers the continuation and returns the derived promise, on any other value it
  throws a \<open>TypeError\<close>. The continuation returns the value it receives, so the derived
  promise is fulfilled with that value; no rejection handler is given, so a rejection
  passes to the derived promise and the continuation is not run.
\<close>

definition derived :: "(jsval, jsval) promise \<Rightarrow> (jsval, jsval) promise" where
  "derived p = (case p of Fulfilled r \<Rightarrow> Fulfilled r | Rejected e \<Rightarrow> Rejected e | Pending \<Rightarrow> Pending)"

definition js_then_end :: "jsval \<Rightarrow> string \<Rightarrow> nat \<Rightarrow> world \<Rightarrow> jsval result \<times> world" where
  "js_then_end p n i s =
     (case p of
        Promise st \<Rightarrow>
          (Inr (Promise (derived st)),
           s\<lparr>reactions := reactions s @
               [\<lparr>rx_name = n, rx_id = i, rx_source = st, rx_done = False\<rparr>]\<rparr>)
      | _ \<Rightarrow> (Inl TypeError, s))"

definition profiled_promise :: "string \<Rightarrow> hostfn \<Rightarrow> hostfn" where
  "profiled_promise n fn args s =
     (case alloc_begin n s of (i, s1) \<Rightarrow>
        (case fn args s1 of
           (Inl error, s2) \<Rightarrow> (Inl error, s2)
         | (Inr p, s2) \<Rightarrow> js_then_end p n i s2))"

text \<open>
  The job of the \<open>k\<close>-th registered continuation, run by the event loop once its
  promise has settled; \<open>s\<close> is the state at that moment.
\<close>

definition run_reaction :: "nat \<Rightarrow> world \<Rightarrow> world" where
  "run_reaction k s =
     (if k < length (reactions s) \<and> \<not> rx_done (reactions s ! k) then
        (let rx = reactions s ! k;
             s1 = s\<lparr>reactions := (reactions s)[k := rx\<lparr>rx_done := True\<rparr>]\<rparr>
         in case rx_source rx of
              Fulfilled r \<Rightarrow> trace_end (rx_name rx) (rx_id rx) s1
            | Rejected e \<Rightarrow> s1
            | Pending \<Rightarrow> s)
      else s)"

text \<open>
  The case \<open>"async"\<close>. \<open>Array.prototype.pop\<close> returns \<open>undefined\<close> on an empty array
  and otherwise removes and returns the last element.
\<close>

definition pop_value :: "jsval list \<Rightarrow> jsval" where
  "pop_value xs = (if xs = [] then Undefined else last xs)"

definition pop_rest :: "jsval list \<Rightarrow> jsval list" where
  "pop_rest xs = butlast xs"

text \<open>The number of arguments that the replacement callbacks can still pop, all together.\<close>

definition pending_args :: "world \<Rightarrow> nat" where
  "pending_args s = sum_list (map (\<lambda>c. length (cl_args c)) (closures s))"

text \<open>
  The state after the first two statements of the \<open>k\<close>-th replacement callback: its
  array has lost its last element and the end event is appended.
\<close>

definition after_pop :: "nat \<Rightarrow> world \<Rightarrow> world" where
  "after_pop k s =
     (let c = closures s ! k
      in trace_end (cl_name c) (cl_id c)
           (s\<lparr>closures := (closures s)[k := c\<lparr>cl_args := pop_rest (cl_args c)\<rparr>]\<rparr>))"

text \<open>
  \<open>call_value f r s\<close> is the call \<open>f(...r)\<close>. An opaque host function records the
  call and returns \<open>undefined\<close>. A replacement callback runs its body:
  \<open>const callback = args.pop()\<close>, then \<open>trace.end\<close>, then \<open>callback(...r)\<close>. Any other
  value is not callable.
\<close>

function (sequential) call_value :: "jsval \<Rightarrow> jsval list \<Rightarrow> world \<Rightarrow> jsval result \<times> world" where
  "call_value (HostFn h) r s = (Inr Undefined, s\<lparr>host_calls := host_calls s @ [(h, r)]\<rparr>)"
| "call_value (ReplFn k) r s =
     (if k < length (closures s) then
        (case call_value (pop_value (cl_args (closures s ! k))) r (after_pop k s) of
           (Inl error, s') \<Rightarrow> (Inl error, s')
         | (Inr v, s') \<Rightarrow> (Inr Undefined, s'))
      else (Inl TypeError, s))"
| "call_value f r s = (Inl TypeError, s)"
  by pat_completeness auto

text \<open>
  The wrapper of the case \<open>"async"\<close>: it allocates the replacement callback, which
  captures \<open>args\<close>, and calls \<open>fn(...args, replacement)\<close>. The wrapper has no \<open>return\<close>.
\<close>

definition profiled_async :: "string \<Rightarrow> hostfn \<Rightarrow> hostfn" where
  "profiled_async n fn args s =
     (case alloc_begin n s of (i, s1) \<Rightarrow>
        (let k = length (closures s1);
             s2 = s1\<lparr>closures := closures s1 @ [\<lparr>cl_name = n, cl_id = i, cl_args = args\<rparr>]\<rparr>
         in case fn (args @ [ReplFn k]) s2 of
              (Inl error, s3) \<Rightarrow> (Inl error, s3)
            | (Inr v, s3) \<Rightarrow> (Inr Undefined, s3)))"

text \<open>
  A tap descriptor \<open>{name, type, fn}\<close>. \<open>makeNewProfiledTapFn\<close> switches on the type;
  after \<open>default: break\<close> the function ends without \<open>return\<close>, so that it yields
  \<open>undefined\<close>, here \<open>None\<close>. The parameter \<open>hookName\<close> is not used by the source.
\<close>

record tap =
  tap_name :: string
  tap_type :: string
  tap_fn :: hostfn

record registered =
  reg_name :: string
  reg_type :: string
  reg_fn :: "hostfn option"

definition makeNewProfiledTapFn :: "string \<Rightarrow> tap \<Rightarrow> hostfn option" where
  "makeNewProfiledTapFn hookName t =
     (if tap_type t = ''promise'' then Some (profiled_promise (tap_name t) (tap_fn t))
      else if tap_type t = ''async'' then Some (profiled_async (tap_name t) (tap_fn t))
      else if tap_type t = ''sync'' then Some (profiled_sync (tap_name t) (tap_fn t))
      else None)"

text \<open>The \<open>register\<close> function of the interceptor \<open>makeInterceptorFor(instance, tracer)(hookName)\<close>.\<close>

definition makeInterceptorFor :: "string \<Rightarrow> string \<Rightarrow> tap \<Rightarrow> registered" where
  "makeInterceptorFor instance hookName t =
     (let newFn = makeNewProfiledTapFn hookName t
      in \<lparr>reg_name = tap_name t, reg_type = tap_type t, reg_fn = newFn\<rparr>)"

text \<open>The host calls the \<open>fn\<close> of a registered tap; calling \<open>undefined\<close> throws.\<close>

definition call_tap :: "registered \<Rightarrow> hostfn" where
  "call_tap t args s = (case reg_fn t of None \<Rightarrow> (Inl TypeError, s) | Some f \<Rightarrow> f args s)"

section \<open>The profiler\<close>

text \<open>
  The inspector session is outside the source: its answer to one \<open>post\<close> is a
  parameter, either the pair \<open>(err, params)\<close> given to the callback, \<open>params\<close> being
  possibly \<open>undefined\<close> (\<open>None\<close>), or no answer at all. \<open>sendCommand\<close> returns the promise
  it builds, represented by its eventual state.
\<close>

datatype 'p reply = Reply jsval "'p option" | NoReply

definition sendCommand :: "'p reply \<Rightarrow> world \<Rightarrow> (jsval, 'p option) promise" where
  "sendCommand rp s =
     (if session s then
        (case rp of
           Reply err params \<Rightarrow>
             if err \<noteq> Null \<and> err \<noteq> Undefined then Rejected Null else Fulfilled params
         | NoReply \<Rightarrow> Pending)
      else Fulfilled None)"

text \<open>
  \<open>Promise.all\<close>: rejected as soon as one element is, fulfilled with the list of values
  when all are. The list order decides here which rejection is reported; in this program
  every rejection carries \<open>null\<close>.
\<close>

fun promise_all :: "('e, 'v) promise list \<Rightarrow> ('e, 'v list) promise" where
  "promise_all [] = Fulfilled []"
| "promise_all (Rejected e # ps) = Rejected e"
| "promise_all (Fulfilled v # ps) =
     (case promise_all ps of
        Fulfilled vs \<Rightarrow> Fulfilled (v # vs) | Rejected e \<Rightarrow> Rejected e | Pending \<Rightarrow> Pending)"
| "promise_all (Pending # ps) =
     (case promise_all ps of Rejected e \<Rightarrow> Rejected e | _ \<Rightarrow> Pending)"

definition or_undefined :: "jsval option \<Rightarrow> jsval" where
  "or_undefined v = (case v of None \<Rightarrow> Undefined | Some x \<Rightarrow> x)"

text \<open>
  \<open>startProfiling\<close>; the first argument tells whether the module \<open>inspector\<close> could be
  loaded, the second gives the session's answers by method name.
\<close>

definition startProfiling ::
  "bool \<Rightarrow> (string \<Rightarrow> jsval reply) \<Rightarrow> world \<Rightarrow> (jsval, jsval) promise \<times> world" where
  "startProfiling inspector post s =
     (if inspector then
        (let s1 = s\<lparr>session := True\<rparr>
         in (case promise_all
                    [sendCommand (post ''Profiler.setSamplingInterval'') s1,
                     sendCommand (post ''Profiler.enable'') s1,
                     sendCommand (post ''Profiler.start'') s1] of
               Fulfilled vs \<Rightarrow> Fulfilled (Arr (map or_undefined vs))
             | Rejected e \<Rightarrow> Rejected e
             | Pending \<Rightarrow> Pending, s1))
      else (Fulfilled Undefined, s))"

definition destroy :: "world \<Rightarrow> world" where
  "destroy s =
     (let s1 = (if session s then s\<lparr>disconnects := disconnects s + 1\<rparr> else s)
      in s1\<lparr>destroys := destroys s1 + 1\<rparr>)"

text \<open>
  The answer to \<open>Profiler.stop\<close> is an object with the field \<open>profile\<close>, which holds
  \<open>startTime\<close>, \<open>endTime\<close> and further fields. The two times are integers here.
\<close>

record cpu_profile =
  startTime :: int
  endTime :: int
  others :: "(string \<times> jsval) list"

record stop_result =
  profile :: cpu_profile

definition profile_value :: "cpu_profile \<Rightarrow> jsval" where
  "profile_value p =
     Obj ((''startTime'', Num (startTime p)) # (''endTime'', Num (endTime p)) # others p)"

definition stopProfiling :: "stop_result reply \<Rightarrow> world \<Rightarrow> (jsval, stop_result option) promise" where
  "stopProfiling rp s = sendCommand rp s"

section \<open>ProfilingPlugin.apply\<close>

text \<open>The function given to \<open>stopProfiling().then\<close> in the handler of \<open>done\<close>.\<close>

definition on_stopped :: "stop_result option \<Rightarrow> world \<Rightarrow> world" where
  "on_stopped parsedResults s =
     (case parsedResults of
        None \<Rightarrow> flush (destroy s)
      | Some pr \<Rightarrow>
          (let cpuStartTime = startTime (profile pr);
               cpuEndTime = endTime (profile pr);
               c1 = counter s + 1;
               s1 = push_event Complete ''TaskQueueManager::ProcessTaskFromWorkQueue'' c1
                      [''toplevel''] (Some cpuStartTime) None
                      (Obj [(''src_file'', Str ''../../ipc/ipc_moji_bootstrap.cc''),
                            (''src_func'', Str ''Accept'')])
                      (s\<lparr>counter := c1\<rparr>);
               c2 = counter s1 + 1;
               s2 = push_event Complete ''EvaluateScript'' c2 [''devtools.timeline'']
                      (Some cpuStartTime) (Some (cpuEndTime - cpuStartTime))
                      (Obj [(''data'', Obj [(''url'', Str ''webpack''), (''lineNumber'', Num 1),
                                            (''columnNumber'', Num 1), (''frame'', Str ''0xFFF'')])])
                      (s1\<lparr>counter := c2\<rparr>);
               c3 = counter s2 + 1;
               s3 = push_event Instant ''CpuProfile'' c3 timelineCategory (Some cpuEndTime) None
                      (Obj [(''data'', Obj [(''cpuProfile'', profile_value (profile pr))])])
                      (s2\<lparr>counter := c3\<rparr>)
           in flush (destroy s3)))"

text \<open>
  The handler of \<open>done\<close> waits two seconds, calls \<open>stopProfiling()\<close> and attaches
  \<open>on_stopped\<close> with \<open>then\<close>, without a rejection handler. \<open>done_handler rp s\<close> is its
  effect, \<open>s\<close> being the state when the promise of \<open>stopProfiling\<close> has settled
  (nothing changes \<open>session\<close> in between).
\<close>

definition done_handler :: "stop_result reply \<Rightarrow> world \<Rightarrow> world" where
  "done_handler rp s =
     (case stopProfiling rp s of
        Fulfilled parsedResults \<Rightarrow> on_stopped parsedResults s
      | Rejected e \<Rightarrow> s
      | Pending \<Rightarrow> s)"

text \<open>The first two statements of \<open>apply\<close>; the promise of \<open>startProfiling\<close> is dropped.\<close>

definition apply_start :: "bool \<Rightarrow> (string \<Rightarrow> jsval reply) \<Rightarrow> int \<Rightarrow> world" where
  "apply_start inspector post now = snd (startProfiling inspector post (createTrace now))"

text \<open>
  A run of the plugin on the single thread is \<open>apply_start\<close> followed by any sequence of
  the steps in which the source touches the tracer: a wrapper is entered (any of the three
  conventions), a wrapper or one of its continuations emits the end event with the name
  and id it captured, time passes, or the handler of \<open>done\<close> finishes.
\<close>

datatype step = HookBegin string | HookEnd string nat | Elapse nat | Done "stop_result reply"

fun exec :: "step \<Rightarrow> world \<Rightarrow> world" where
  "exec (HookBegin n) s = snd (alloc_begin n s)"
| "exec (HookEnd n i) s = trace_end n i s"
| "exec (Elapse d) s = s\<lparr>clock := clock s + int d\<rparr>"
| "exec (Done rp) s = done_handler rp s"

definition run :: "bool \<Rightarrow> (string \<Rightarrow> jsval reply) \<Rightarrow> int \<Rightarrow> step list \<Rightarrow> world" where
  "run inspector post now steps = foldl (\<lambda>s a. exec a s) (apply_start inspector post now) steps"

text \<open>The ids that were allocated for the events of a log: those of all events but the end events,
  which repeat the id of their begin event.\<close>

definition allocated_ids :: "event list \<Rightarrow> nat list" where
  "allocated_ids es = map ev_id (filter (\<lambda>e. ev_ph e \<noteq> End) es)"

definition ev_key :: "event \<Rightarrow> phase \<times> string \<times> nat" where
  "ev_key e = (ev_ph e, ev_name e, ev_id e)"

text \<open>The invariant of the counter: the allocated ids of the log are \<open>1, 2, \<dots>, counter\<close> in this order.\<close>

definition ids_ok :: "world \<Rightarrow> bool" where
  "ids_ok s = (allocated_ids (events s) = [1..<Suc (counter s)])"

section \<open>Host callables used as concrete inputs\<close>

definition returns :: "jsval \<Rightarrow> hostfn" where
  "returns v args s = (Inr v, s)"

definition throws :: "jsval \<Rightarrow> hostfn" where
  "throws e args s = (Inl e, s)"


definition rejects_with :: "jsval \<Rightarrow> hostfn" where
  "rejects_with e args s = (Inr (Promise (Rejected e)), s)"

text \<open>Reading a parameter: a missing argument is \<open>undefined\<close>.\<close>

definition nth_arg :: "jsval list \<Rightarrow> nat \<Rightarrow> jsval" where
  "nth_arg args i = (if i < length args then args ! i else Undefined)"

text \<open>The tap \<open>(x, callback) => callback(null, x)\<close>, written as the host's taps are.\<close>

definition conventional_tap :: hostfn where
  "conventional_tap args s = call_value (nth_arg args 1) [Null, nth_arg args 0] s"

text \<open>The tap \<open>(...a) => { const cb = a[a.length - 1]; cb(null, 7); cb(null, 7); }\<close>.\<close>

definition twice_tap :: hostfn where
  "twice_tap args s =
     (let cb = nth_arg args (length args - 1)
      in case call_value cb [Null, Num 7] s of
           (Inl error, s1) \<Rightarrow> (Inl error, s1)
         | (Inr v, s1) \<Rightarrow> call_value cb [Null, Num 7] s1)"

text \<open>A session that answers every command without error and without a result.\<close>

definition post_ok :: "string \<Rightarrow> jsval reply" where
  "post_ok m = Reply Null None"

text \<open>The events of a log that are not the begin or end event of a hook.\<close>

definition hook_free :: "event list \<Rightarrow> event list" where
  "hook_free es = filter (\<lambda>e. ev_ph e \<noteq> Begin \<and> ev_ph e \<noteq> End) es"

section \<open>Termination of calls\<close>

lemma sum_list_map_update:
  fixes f :: "'a \<Rightarrow> nat"
  shows "k < length xs \<Longrightarrow>
    sum_list (map f (xs[k := y])) + f (xs ! k) = sum_list (map f xs) + f y"
proof (induction xs arbitrary: k)
  case Nil
  then show ?case by simp
next
  case (Cons x xs)
  then show ?case by (cases k) auto
qed

lemma closures_after_pop:
  "closures (after_pop k s) =
     (closures s)[k := (closures s ! k)\<lparr>cl_args := pop_rest (cl_args (closures s ! k))\<rparr>]"
  by (simp add: after_pop_def trace_end_def push_event_def Let_def)

lemma pending_args_after_pop:
  assumes "k < length (closures s)"
  shows "pending_args (after_pop k s) + (if cl_args (closures s ! k) = [] then 0 else 1) =
    pending_args s"
  using sum_list_map_update[OF assms, of "\<lambda>c. length (cl_args c)"
      "(closures s ! k)\<lparr>cl_args := pop_rest (cl_args (closures s ! k))\<rparr>"]
  by (cases "cl_args (closures s ! k)" rule: rev_cases)
     (auto simp: pending_args_def closures_after_pop pop_rest_def)

text \<open>
  Every firing of a replacement callback either pops an argument or, on an empty array,
  goes on to call \<open>undefined\<close>, which throws: a call always ends.
\<close>

termination call_value
proof (relation "measure (\<lambda>(f, r, s).
    2 * pending_args s + (case f of ReplFn _ \<Rightarrow> 1 | _ \<Rightarrow> 0))", goal_cases)
  case 1
  show ?case by simp
next
  case (2 k r s)
  then show ?case
    using pending_args_after_pop[of k s]
    by (auto simp: pop_value_def split: jsval.splits if_splits)
qed

section \<open>Basic facts\<close>

lemma push_event_eq:
  "push_event p n i c t d a s =
     s\<lparr>events := events s @
         [\<lparr>ev_name = n, ev_id = i, ev_cat = c, ev_ph = p,
           ev_ts = (case t of None \<Rightarrow> clock s | Some u \<Rightarrow> u),
           ev_dur = d, ev_args = a\<rparr>]\<rparr>"
  by (simp add: push_event_def)

lemma alloc_begin_eq:
  "alloc_begin n s =
     (counter s + 1,
      s\<lparr>counter := counter s + 1,
        events := events s @
          [\<lparr>ev_name = n, ev_id = counter s + 1, ev_cat = defaultCategory, ev_ph = Begin,
            ev_ts = clock s, ev_dur = None, ev_args = Undefined\<rparr>]\<rparr>)"
  by (simp add: alloc_begin_def trace_begin_def push_event_def Let_def)

lemma trace_end_eq:
  "trace_end n i s =
     s\<lparr>events := events s @
          [\<lparr>ev_name = n, ev_id = i, ev_cat = defaultCategory, ev_ph = End,
            ev_ts = clock s, ev_dur = None, ev_args = Undefined\<rparr>]\<rparr>"
  by (simp add: trace_end_def push_event_def)

lemma counter_push: "counter (push_event p n i c t d a s) = counter s"
  by (simp add: push_event_def)

section \<open>The synchronous wrapper\<close>

text \<open>
  Claim C1. For every synchronous hook the wrapper first allocates the id
  \<open>counter + 1\<close> and appends one begin event with it, then runs the underlying callable
  in that state, and finally appends one end event with the same id to whatever state
  the callable left. The outcome \<open>r\<close> of the wrapper is the outcome of the underlying
  callable itself: the very value it returned (\<open>Inr\<close>) or the very value it threw
  (\<open>Inl\<close>), and the end event is appended on both paths.
\<close>

theorem sync_hook_transparent:
  "let i = counter s + 1;
       b = \<lparr>ev_name = n, ev_id = i, ev_cat = defaultCategory, ev_ph = Begin,
            ev_ts = clock s, ev_dur = None, ev_args = Undefined\<rparr>;
       s1 = s\<lparr>counter := i, events := events s @ [b]\<rparr>;
       r = fst (fn args s1);
       s2 = snd (fn args s1);
       e = \<lparr>ev_name = n, ev_id = i, ev_cat = defaultCategory, ev_ph = End,
            ev_ts = clock s2, ev_dur = None, ev_args = Undefined\<rparr>
   in profiled_sync n fn args s = (r, s2\<lparr>events := events s2 @ [e]\<rparr>)"
  by (simp add: profiled_sync_def alloc_begin_eq trace_end_eq Let_def
      split: prod.splits sum.splits)

text \<open>
  The throwing path at a concrete input: the hook throws the error object \<open>Ref 9\<close>;
  the caller receives the same \<open>Ref 9\<close> and the log holds the pair.
\<close>

lemma sync_hook_throw_example:
  "profiled_sync ''emit'' (throws (Ref 9)) [] (createTrace 0) = (r, s') \<Longrightarrow>
     r = Inl (Ref 9) \<and>
     map ev_key (events s') =
       [(Instant, ''TracingStartedInPage'', 1), (Instant, ''TracingStartedInBrowser'', 2),
        (Begin, ''emit'', 3), (End, ''emit'', 3)]"
  by (auto simp: profiled_sync_def throws_def alloc_begin_eq trace_end_eq createTrace_def
      push_event_def ev_key_def Let_def)

section \<open>The ids of a run\<close>

lemma allocated_ids_append: "allocated_ids (xs @ ys) = allocated_ids xs @ allocated_ids ys"
  by (simp add: allocated_ids_def)

lemma ids_ok_createTrace: "ids_ok (createTrace now)"
  by (simp add: ids_ok_def createTrace_def push_event_def allocated_ids_def Let_def upt_rec)

lemma ids_ok_alloc_begin: "ids_ok s \<Longrightarrow> ids_ok (snd (alloc_begin n s))"
  by (simp add: ids_ok_def alloc_begin_eq allocated_ids_append) (simp add: allocated_ids_def)

lemma ids_ok_trace_end: "ids_ok s \<Longrightarrow> ids_ok (trace_end n i s)"
  by (simp add: ids_ok_def trace_end_eq allocated_ids_append) (simp add: allocated_ids_def)

lemma ids_ok_flush_destroy: "ids_ok s \<Longrightarrow> ids_ok (flush (destroy s))"
  by (simp add: ids_ok_def flush_def destroy_def Let_def)

lemma ids_ok_push:
  "ids_ok s \<Longrightarrow> p \<noteq> End \<Longrightarrow>
   ids_ok (push_event p n (counter s + 1) c t d a (s\<lparr>counter := counter s + 1\<rparr>))"
  by (simp add: ids_ok_def push_event_def allocated_ids_append) (simp add: allocated_ids_def)

lemma ids_ok_on_stopped: "ids_ok s \<Longrightarrow> ids_ok (on_stopped pr s)"
proof (cases pr)
  case None
  assume "ids_ok s"
  with None show ?thesis by (simp add: on_stopped_def ids_ok_flush_destroy)
next
  case (Some r)
  assume ok: "ids_ok s"
  show ?thesis
    unfolding on_stopped_def Some option.case Let_def counter_push
    by (intro ids_ok_flush_destroy ids_ok_push ok
          ids_ok_push[where s="push_event _ _ _ _ _ _ _ _", unfolded counter_push])
       simp_all
qed

lemma ids_ok_done_handler: "ids_ok s \<Longrightarrow> ids_ok (done_handler rp s)"
  by (simp add: done_handler_def ids_ok_on_stopped split: promise.splits)

lemma ids_ok_exec: "ids_ok s \<Longrightarrow> ids_ok (exec a s)"
proof (cases a)
  case (Elapse d)
  assume "ids_ok s"
  with Elapse show ?thesis by (simp add: ids_ok_def)
qed (simp_all add: ids_ok_alloc_begin ids_ok_trace_end ids_ok_done_handler)

lemma ids_ok_foldl: "ids_ok s \<Longrightarrow> ids_ok (foldl (\<lambda>s a. exec a s) s steps)"
  by (induction steps arbitrary: s) (simp_all add: ids_ok_exec)

lemma ids_ok_apply_start: "ids_ok (apply_start inspector post now)"
  using ids_ok_createTrace[of now]
  by (simp add: apply_start_def startProfiling_def Let_def ids_ok_def)

text \<open>
  Claim C4. In every run, whatever the interleaving of wrapper entries, end events,
  passing time and finalisations, the ids allocated for the events of the log (the two
  bootstrap events, one id for each begin/end pair, the merge events) are, in log order,
  exactly \<open>1, 2, \<dots>, counter\<close>: they increase strictly and no id is used twice.
\<close>

theorem ids_strictly_increasing:
  "allocated_ids (events (run inspector post now steps)) =
     [1..<Suc (counter (run inspector post now steps))]
   \<and> sorted_wrt (<) (allocated_ids (events (run inspector post now steps)))
   \<and> distinct (allocated_ids (events (run inspector post now steps)))"
proof -
  have "ids_ok (run inspector post now steps)"
    unfolding run_def by (rule ids_ok_foldl[OF ids_ok_apply_start])
  then have eq: "allocated_ids (events (run inspector post now steps)) =
     [1..<Suc (counter (run inspector post now steps))]"
    by (simp add: ids_ok_def)
  show ?thesis unfolding eq by (simp del: upt_Suc)
qed

text \<open>
  The wrappers themselves keep the invariant of the counter, whenever the callables they
  wrap do: a run built from wrapper calls is a run in the sense above.
\<close>

lemma ids_ok_after_pop: "ids_ok s \<Longrightarrow> ids_ok (after_pop k s)"
  unfolding after_pop_def Let_def
  by (rule ids_ok_trace_end) (simp add: ids_ok_def)

lemma ids_ok_call_value: "ids_ok s \<Longrightarrow> ids_ok (snd (call_value f r s))"
proof (induction f r s rule: call_value.induct)
  case (1 h r s)
  then show ?case by (simp add: ids_ok_def)
next
  case (2 k r s)
  show ?case
  proof (cases "k < length (closures s)")
    case True
    from "2.IH"[OF True ids_ok_after_pop[OF "2.prems"]] True
    show ?thesis by (auto split: prod.splits sum.splits)
  next
    case False
    with "2.prems" show ?thesis by simp
  qed
qed simp_all

lemma ids_ok_profiled_sync:
  assumes "ids_ok s" and "\<And>s1. ids_ok s1 \<Longrightarrow> ids_ok (snd (fn args s1))"
  shows "ids_ok (snd (profiled_sync n fn args s))"
proof -
  have "ids_ok (snd (fn args (snd (alloc_begin n s))))"
    by (rule assms(2)[OF ids_ok_alloc_begin[OF assms(1)]])
  then have "ids_ok (trace_end n (counter s + 1) (snd (fn args (snd (alloc_begin n s)))))"
    by (rule ids_ok_trace_end)
  then show ?thesis
    by (auto simp: profiled_sync_def alloc_begin_eq trace_end_eq ids_ok_def
        split: prod.splits sum.splits)
qed

lemma profiled_async_call:
  "profiled_async n fn args s =
     (let k = length (closures s);
          out = fn (args @ [ReplFn k])
                  ((snd (alloc_begin n s))\<lparr>closures := closures s @
                      [\<lparr>cl_name = n, cl_id = counter s + 1, cl_args = args\<rparr>]\<rparr>)
      in (case fst out of Inl error \<Rightarrow> Inl error | Inr v \<Rightarrow> Inr Undefined, snd out))"
  by (simp add: profiled_async_def alloc_begin_eq Let_def split: prod.splits sum.splits)

lemma ids_ok_profiled_async:
  assumes "ids_ok s" and "\<And>a s1. ids_ok s1 \<Longrightarrow> ids_ok (snd (fn a s1))"
  shows "ids_ok (snd (profiled_async n fn args s))"
proof -
  let ?s2 = "(snd (alloc_begin n s))\<lparr>closures := closures s @
      [\<lparr>cl_name = n, cl_id = counter s + 1, cl_args = args\<rparr>]\<rparr>"
  have "ids_ok ?s2"
    using ids_ok_alloc_begin[OF assms(1), of n] by (simp add: ids_ok_def)
  then have "ids_ok (snd (fn (args @ [ReplFn (length (closures s))]) ?s2))"
    by (rule assms(2))
  then show ?thesis
    by (simp add: profiled_async_call Let_def)
qed

lemma ids_ok_profiled_promise:
  assumes "ids_ok s" and "\<And>s1. ids_ok s1 \<Longrightarrow> ids_ok (snd (fn args s1))"
  shows "ids_ok (snd (profiled_promise n fn args s))"
proof -
  have "ids_ok (snd (fn args (snd (alloc_begin n s))))"
    by (rule assms(2)[OF ids_ok_alloc_begin[OF assms(1)]])
  then show ?thesis
    by (auto simp: profiled_promise_def alloc_begin_eq js_then_end_def ids_ok_def
        split: prod.splits sum.splits jsval.splits)
qed

lemma ids_ok_run_reaction: "ids_ok s \<Longrightarrow> ids_ok (run_reaction k s)"
proof -
  assume ok: "ids_ok s"
  have upd: "ids_ok (s\<lparr>reactions := rs\<rparr>)" for rs
    using ok by (simp add: ids_ok_def)
  show ?thesis
    by (simp add: run_reaction_def Let_def ok upd ids_ok_trace_end split: promise.splits)
qed

section \<open>The start of the plugin\<close>

lemma events_createTrace:
  "map ev_key (events (createTrace now)) =
     [(Instant, ''TracingStartedInPage'', 1), (Instant, ''TracingStartedInBrowser'', 2)]"
  by (simp add: createTrace_def push_event_def ev_key_def Let_def)

lemma createTrace_eq:
  "createTrace now =
     \<lparr>counter = 2,
      events = [\<lparr>ev_name = ''TracingStartedInPage'', ev_id = 1, ev_cat = timelineCategory,
                 ev_ph = Instant, ev_ts = now, ev_dur = None, ev_args = pageArgs\<rparr>,
                \<lparr>ev_name = ''TracingStartedInBrowser'', ev_id = 2, ev_cat = timelineCategory,
                 ev_ph = Instant, ev_ts = now, ev_dur = None, ev_args = browserArgs\<rparr>],
      written = [], flushes = 0, session = False, disconnects = 0, destroys = 0,
      clock = now, closures = [], reactions = [], host_calls = []\<rparr>"
  by (simp add: createTrace_def push_event_def Let_def)

lemma apply_start_eq:
  "apply_start inspector post now = (createTrace now)\<lparr>session := inspector\<rparr>"
  by (simp add: apply_start_def startProfiling_def Let_def createTrace_eq)

text \<open>
  Neither the label of the registry nor the name of the hook is read: the registered tap
  depends on the tap descriptor alone, and every event of a wrapper carries the \<open>name\<close> of
  that descriptor.
\<close>

lemma hook_name_not_read:
  "makeInterceptorFor instance hookName t = makeInterceptorFor instance' hookName' t"
  by (simp add: makeInterceptorFor_def makeNewProfiledTapFn_def)

text \<open>
  Claim C7, as stated, at two inputs; in both, \<open>apply\<close> has created the tracer and a tap
  of type \<open>"sync"\<close> returning 42 is registered on the hook \<open>"build"\<close> and called once.
  When the tap is itself named \<open>"build"\<close>, the begin and end events are named \<open>"build"\<close>
  but carry the id 3, not 1. When the tap is named \<open>"MyPlugin"\<close>, the events are named
  \<open>"MyPlugin"\<close>, not \<open>"build"\<close>, also with the id 3.
\<close>

theorem build_hook_events_counterexample:
  "map ev_key (drop 2 (events (snd (call_tap
      (makeInterceptorFor ''Compiler'' ''build''
         \<lparr>tap_name = ''build'', tap_type = ''sync'', tap_fn = returns (Num 42)\<rparr>)
      [] (apply_start False post_ok 0))))) =
     [(Begin, ''build'', 3), (End, ''build'', 3)]
   \<and> map ev_key (drop 2 (events (snd (call_tap
      (makeInterceptorFor ''Compiler'' ''build''
         \<lparr>tap_name = ''build'', tap_type = ''sync'', tap_fn = returns (Num 42)\<rparr>)
      [] (apply_start False post_ok 0))))) \<noteq>
     [(Begin, ''build'', 1), (End, ''build'', 1)]
   \<and> map ev_key (drop 2 (events (snd (call_tap
      (makeInterceptorFor ''Compiler'' ''build''
         \<lparr>tap_name = ''MyPlugin'', tap_type = ''sync'', tap_fn = returns (Num 42)\<rparr>)
      [] (apply_start False post_ok 0))))) =
     [(Begin, ''MyPlugin'', 3), (End, ''MyPlugin'', 3)]
   \<and> map ev_name (drop 2 (events (snd (call_tap
      (makeInterceptorFor ''Compiler'' ''build''
         \<lparr>tap_name = ''MyPlugin'', tap_type = ''sync'', tap_fn = returns (Num 42)\<rparr>)
      [] (apply_start False post_ok 0))))) \<noteq>
     [''build'', ''build'']"
  by (simp add: call_tap_def makeInterceptorFor_def makeNewProfiledTapFn_def profiled_sync_def
      returns_def alloc_begin_eq trace_end_eq apply_start_eq createTrace_eq ev_key_def Let_def)

text \<open>
  Claim C7, amended. A tap of type \<open>"sync"\<close> returning 42 is registered under any name
  \<open>n\<close> on the hook \<open>"build"\<close> and called as the first hook after the tracer was created.
  It hands 42 back to its caller, and the log then holds, in order, the two bootstrap
  events with the ids 1 and 2, the begin event \<open>{name: n, id: 3}\<close> and the end event
  \<open>{name: n, id: 3}\<close>: the events carry the name of the tap, which is \<open>"build"\<close> exactly
  when the tap is named so.
\<close>

theorem build_hook_events_by_tap_name:
  "let t = \<lparr>tap_name = n, tap_type = ''sync'', tap_fn = returns (Num 42)\<rparr>;
       out = call_tap (makeInterceptorFor instance ''build'' t) args
               (apply_start inspector post now)
   in fst out = Inr (Num 42)
    \<and> map ev_key (events (snd out)) =
        [(Instant, ''TracingStartedInPage'', 1), (Instant, ''TracingStartedInBrowser'', 2),
         (Begin, n, 3), (End, n, 3)]"
  by (simp add: call_tap_def makeInterceptorFor_def makeNewProfiledTapFn_def profiled_sync_def
      returns_def alloc_begin_eq trace_end_eq apply_start_eq createTrace_eq ev_key_def Let_def)

section \<open>The promise wrapper\<close>













lemma promise_rejection_general:
  "profiled_promise n (rejects_with e) args s =
     (Inr (Promise (Rejected e)),
      (snd (alloc_begin n s))\<lparr>reactions := reactions s @
         [\<lparr>rx_name = n, rx_id = counter s + 1, rx_source = Rejected e, rx_done = False\<rparr>]\<rparr>)
   \<and> events (run_reaction (length (reactions s))
        (snd (profiled_promise n (rejects_with e) args s))) =
      events (snd (alloc_begin n s))"
  by (simp add: rejects_with_def alloc_begin_eq profiled_promise_def
      js_then_end_def derived_def run_reaction_def Let_def)

text \<open>
  Claim C3, evaluated on the source. The hook \<open>"emit"\<close> rejects with the error object
  \<open>Ref 7\<close>. The caller receives a promise rejected with the same \<open>Ref 7\<close>. The
  continuation was attached without a rejection handler: after its job the log holds
  the begin event with id 3 and no end event.
\<close>

theorem promise_hook_rejection_unpaired:
  "fst (profiled_promise ''emit'' (rejects_with (Ref 7)) [] (createTrace 0)) =
     Inr (Promise (Rejected (Ref 7)))
   \<and> map ev_key (events (run_reaction 0
        (snd (profiled_promise ''emit'' (rejects_with (Ref 7)) [] (createTrace 0))))) =
     [(Instant, ''TracingStartedInPage'', 1), (Instant, ''TracingStartedInBrowser'', 2),
      (Begin, ''emit'', 3)]"
  by (simp add: rejects_with_def createTrace_eq alloc_begin_eq profiled_promise_def
      js_then_end_def derived_def run_reaction_def trace_end_eq ev_key_def Let_def)

section \<open>The callback-style wrapper\<close>

text \<open>
  Claim C2, evaluated on the source. The wrapper is called with the arguments \<open>1\<close> and
  the host's callback \<open>HostFn 0\<close>. It passes both on, followed by the replacement:
  \<open>args.pop()\<close> runs only inside the replacement, after \<open>args\<close> was spread into the call.
  A tap written \<open>(x, callback) => callback(null, x)\<close> therefore completes through the
  original callback; the replacement never fires (its captured array is untouched) and
  no end event is logged. A tap that calls its last argument twice reaches the original
  callback the first time only: the second firing pops the argument \<open>1\<close>, logs a second
  end event with the same id and throws a \<open>TypeError\<close>.
\<close>

theorem async_hook_callback_not_replaced:
  "let out1 = profiled_async ''emit'' conventional_tap [Num 1, HostFn 0] (createTrace 0);
       out2 = profiled_async ''emit'' twice_tap [Num 1, HostFn 0] (createTrace 0)
   in fst out1 = Inr Undefined
    \<and> host_calls (snd out1) = [(0, [Null, Num 1])]
    \<and> map cl_args (closures (snd out1)) = [[Num 1, HostFn 0]]
    \<and> map ev_key (events (snd out1)) =
        [(Instant, ''TracingStartedInPage'', 1), (Instant, ''TracingStartedInBrowser'', 2),
         (Begin, ''emit'', 3)]
    \<and> fst out2 = Inl TypeError
    \<and> host_calls (snd out2) = [(0, [Null, Num 7])]
    \<and> map cl_args (closures (snd out2)) = [[]]
    \<and> map ev_key (events (snd out2)) =
        [(Instant, ''TracingStartedInPage'', 1), (Instant, ''TracingStartedInBrowser'', 2),
         (Begin, ''emit'', 3), (End, ''emit'', 3), (End, ''emit'', 3)]"
  by (simp add: profiled_async_def conventional_tap_def twice_tap_def nth_arg_def pop_value_def
      pop_rest_def after_pop_def alloc_begin_eq trace_end_eq createTrace_eq ev_key_def Let_def)

section \<open>Registration\<close>

lemma unknown_type_general:
  "tap_type t \<noteq> ''promise'' \<Longrightarrow> tap_type t \<noteq> ''async'' \<Longrightarrow> tap_type t \<noteq> ''sync'' \<Longrightarrow>
   reg_fn (makeInterceptorFor instance hookName t) = None"
  by (simp add: makeInterceptorFor_def makeNewProfiledTapFn_def Let_def)

text \<open>
  Claim C10, evaluated on the source. For the tap \<open>{name: "x", type: "other", fn}\<close>,
  whose \<open>fn\<close> returns 42, \<open>register\<close> neither throws nor keeps \<open>fn\<close>: the registered
  tap has \<open>fn: undefined\<close>, and calling it throws a \<open>TypeError\<close>.
\<close>

theorem unknown_type_installs_undefined:
  "let t = \<lparr>tap_name = ''x'', tap_type = ''other'', tap_fn = returns (Num 42)\<rparr>;
       r = makeInterceptorFor ''Compiler'' ''emit'' t
   in reg_fn r = None
    \<and> fst (call_tap r [] (createTrace 0)) = Inl TypeError
    \<and> fst (tap_fn t [] (createTrace 0)) = Inr (Num 42)"
  by (simp add: call_tap_def makeInterceptorFor_def makeNewProfiledTapFn_def returns_def Let_def)

section \<open>Finalisation\<close>

text \<open>
  Claim C6. With a connected session that answers \<open>Profiler.stop\<close> with a profile whose
  \<open>startTime\<close> is 1000 and whose \<open>endTime\<close> is 5000, the handler of \<open>done\<close> appends
  exactly three events in this order: the container complete event at \<open>ts = 1000\<close>, the
  complete event \<open>EvaluateScript\<close> with \<open>ts = 1000\<close> and \<open>dur = 4000\<close>, and the instant
  event \<open>CpuProfile\<close> at \<open>ts = 5000\<close> whose \<open>args\<close> hold the whole profile. The flushed
  output ends with the same three events.
\<close>

theorem finalize_sample_1000_5000:
  "let p' = p\<lparr>startTime := 1000, endTime := 5000\<rparr>;
       c = counter s;
       container =
         \<lparr>ev_name = ''TaskQueueManager::ProcessTaskFromWorkQueue'', ev_id = c + 1,
          ev_cat = [''toplevel''], ev_ph = Complete, ev_ts = 1000, ev_dur = None,
          ev_args = Obj [(''src_file'', Str ''../../ipc/ipc_moji_bootstrap.cc''),
                         (''src_func'', Str ''Accept'')]\<rparr>;
       evaluate =
         \<lparr>ev_name = ''EvaluateScript'', ev_id = c + 2, ev_cat = [''devtools.timeline''],
          ev_ph = Complete, ev_ts = 1000, ev_dur = Some 4000,
          ev_args = Obj [(''data'', Obj [(''url'', Str ''webpack''), (''lineNumber'', Num 1),
                                         (''columnNumber'', Num 1), (''frame'', Str ''0xFFF'')])]\<rparr>;
       payload =
         \<lparr>ev_name = ''CpuProfile'', ev_id = c + 3, ev_cat = timelineCategory,
          ev_ph = Instant, ev_ts = 5000, ev_dur = None,
          ev_args = Obj [(''data'', Obj [(''cpuProfile'', profile_value p')])]\<rparr>;
       s' = done_handler (Reply Null (Some \<lparr>profile = p'\<rparr>)) (s\<lparr>session := True\<rparr>)
   in events s' = events s @ [container, evaluate, payload]
    \<and> written s' = written s @ events s @ [container, evaluate, payload]"
  by (simp add: done_handler_def stopProfiling_def sendCommand_def on_stopped_def
      push_event_def flush_def destroy_def Let_def)

lemma destroys_on_stopped: "destroys (on_stopped pr s) = destroys s + 1"
  by (cases pr) (simp_all add: on_stopped_def push_event_def flush_def destroy_def Let_def)

text \<open>When the promise of \<open>stopProfiling\<close> is fulfilled, with or without a profile,
  \<open>destroy\<close> is called once; when it is rejected, nothing is done.\<close>

lemma destroy_once_when_fulfilled:
  "stopProfiling rp s = Fulfilled pr \<Longrightarrow> destroys (done_handler rp s) = destroys s + 1"
  by (simp add: done_handler_def destroys_on_stopped)

lemma nothing_done_when_rejected:
  "stopProfiling rp s = Rejected e \<Longrightarrow> done_handler rp s = s"
  by (simp add: done_handler_def)

text \<open>
  Claim C5, evaluated on the source. The inspector is available, so that \<open>apply\<close>
  connects a session, and the session answers \<open>Profiler.stop\<close> with an error.
  \<open>sendCommand\<close> rejects its promise, the function given to \<open>then\<close> is not run, and the
  state is left as it was: \<open>destroy\<close> has been called zero times, the session is not
  disconnected and the log is not flushed.
\<close>

theorem stop_failure_skips_destroy:
  "done_handler (Reply (Str ''Profiler.stop failed'') None) (apply_start True post_ok 0) =
     apply_start True post_ok 0
   \<and> destroys (done_handler (Reply (Str ''Profiler.stop failed'') None)
        (apply_start True post_ok 0)) = 0
   \<and> disconnects (done_handler (Reply (Str ''Profiler.stop failed'') None)
        (apply_start True post_ok 0)) = 0
   \<and> flushes (done_handler (Reply (Str ''Profiler.stop failed'') None)
        (apply_start True post_ok 0)) = 0"
  by (simp add: done_handler_def stopProfiling_def sendCommand_def apply_start_eq createTrace_eq)

section \<open>Running without the inspector\<close>

lemma done_handler_no_session:
  "\<not> session s \<Longrightarrow> done_handler rp s = flush (destroy s)"
  by (simp add: done_handler_def stopProfiling_def sendCommand_def on_stopped_def)

lemma exec_no_session:
  "\<not> session s \<Longrightarrow>
     \<not> session (exec a s) \<and> hook_free (events (exec a s)) = hook_free (events s)"
  by (cases a)
     (simp_all add: done_handler_no_session flush_def destroy_def alloc_begin_eq trace_end_eq
        hook_free_def)

lemma foldl_no_session:
  "\<not> session s \<Longrightarrow>
     \<not> session (foldl (\<lambda>s a. exec a s) s steps)
     \<and> hook_free (events (foldl (\<lambda>s a. exec a s) s steps)) = hook_free (events s)"
proof (induction steps arbitrary: s)
  case Nil
  then show ?case by simp
next
  case (Cons a steps)
  from exec_no_session[OF Cons.prems, of a] Cons.IH[of "exec a s"]
  show ?case by simp
qed

text \<open>
  Claim C8. Without the inspector, \<open>startProfiling\<close> changes nothing and returns a
  fulfilled promise. After any run of the plugin, the handler of \<open>done\<close> appends no
  event and flushes the log, whatever the session would have answered; the events of
  the log other than the begin and end events of hooks are exactly the two bootstrap
  events, so that none of the three merge events is present.
\<close>

theorem no_inspector_degrades:
  "startProfiling False post s = (Fulfilled Undefined, s)
   \<and> (let s1 = run False post now steps;
           s2 = done_handler rp s1
       in events s2 = events s1
        \<and> written s2 = written s1 @ events s1
        \<and> flushes s2 = flushes s1 + 1
        \<and> hook_free (events s2) = events (createTrace now)
        \<and> map ev_key (events (createTrace now)) =
            [(Instant, ''TracingStartedInPage'', 1), (Instant, ''TracingStartedInBrowser'', 2)])"
proof -
  have start: "\<not> session (apply_start False post now)"
    by (simp add: apply_start_eq createTrace_eq)
  have boot: "hook_free (events (apply_start False post now)) = events (createTrace now)"
    by (simp add: apply_start_eq createTrace_eq hook_free_def)
  from foldl_no_session[OF start, of steps] boot
  have r: "\<not> session (run False post now steps)"
    "hook_free (events (run False post now steps)) = events (createTrace now)"
    by (simp_all add: run_def)
  have d: "done_handler rp (run False post now steps) = flush (destroy (run False post now steps))"
    by (rule done_handler_no_session[OF r(1)])
  have f: "events (flush (destroy s)) = events s"
    "written (flush (destroy s)) = written s @ events s"
    "flushes (flush (destroy s)) = flushes s + 1" for s
    by (simp_all add: flush_def destroy_def Let_def)
  show ?thesis
    unfolding Let_def d f using r(2)
    by (simp add: startProfiling_def events_createTrace)
qed

end
